theory Spec2Isabelle
  imports Complex_Main "HOL-Library.Sublist"
begin

chapter \<open>The gateway's dispatch core: provider translation, failover, cache key, rate limit\<close>

section \<open>Strings and formatting helpers of the Go standard library\<close>

text \<open>
  Go strings are byte sequences; \<^typ>\<open>string\<close> is a list of characters. The two
  predicates of package \<open>strings\<close> the code uses are the prefix and the contiguous
  sublist relation of the list library.
\<close>

definition HasPrefix :: "string \<Rightarrow> string \<Rightarrow> bool" where
  "HasPrefix s pre = prefix pre s"

definition Contains :: "string \<Rightarrow> string \<Rightarrow> bool" where
  "Contains s substr = sublist substr s"

text \<open>The verb \<open>%d\<close> on a non-negative integer: decimal digits, most significant first.\<close>

definition digit_char :: "nat \<Rightarrow> char" where
  "digit_char d = ''0123456789'' ! d"

function fmt_d :: "nat \<Rightarrow> string" where
  "fmt_d n = (if n < 10 then [digit_char n] else fmt_d (n div 10) @ [digit_char (n mod 10)])"
  by pat_completeness auto
termination
  by (relation "measure id") auto

declare fmt_d.simps [simp del]

text \<open>Lower-case hexadecimal, as \<open>%x\<close> and the pointer form of \<open>%v\<close> print it.\<close>

definition hex_char :: "nat \<Rightarrow> char" where
  "hex_char d = ''0123456789abcdef'' ! d"

function fmt_x :: "nat \<Rightarrow> string" where
  "fmt_x n = (if n < 16 then [hex_char n] else fmt_x (n div 16) @ [hex_char (n mod 16)])"
  by pat_completeness auto
termination
  by (relation "measure id") auto

declare fmt_x.simps [simp del]

section \<open>Data model (package providers, in internal/gateway/providers/openai.go)\<close>

text \<open>
  A Go pointer is either nil or the address of a cell together with the value stored
  there. The request's optional fields are pointers; nothing in the gateway writes
  through them, so the pointee travels with the address. Go's \<open>int\<close> is \<^typ>\<open>int\<close>
  (no claim depends on its width); \<open>float32\<close> and \<open>float64\<close> values are real
  numbers.
\<close>

datatype 'a ptr = Nil | Ptr (addr: nat) (pointee: 'a)

fun deref :: "'a ptr \<Rightarrow> 'a option" where
  "deref Nil = None"
| "deref (Ptr a v) = Some v"

text \<open>
  \<open>openai.ChatCompletionMessage\<close> is declared in the go-openai library, outside this
  repository. The gateway reads its \<open>Role\<close> and \<open>Content\<close>; the struct's remaining
  fields it only ever prints, with \<open>%v\<close>, when it builds the cache key.
  \<open>OtherFields\<close> is that print of the remaining fields: for a message decoded from a
  body that gives a role and a content only, empty slices, a nil pointer and empty
  strings, each followed by a space except the last.
\<close>

record ChatCompletionMessage =
  Role :: string
  Content :: string
  OtherFields :: string

record ChatRequest =
  Model :: string
  Messages :: "ChatCompletionMessage list"
  Temperature :: "real ptr"
  MaxTokens :: "int ptr"
  TopP :: "real ptr"
  Stream :: bool

record Usage =
  PromptTokens :: int
  CompletionTokens :: int
  TotalTokens :: int

record ChatCompletionChoice =
  Index :: int
  Message :: ChatCompletionMessage
  FinishReason :: string

record ChatResponse =
  resp_ID :: string
  resp_Object :: string
  resp_Created :: int
  resp_Model :: string
  resp_Choices :: "ChatCompletionChoice list"
  resp_Usage :: Usage
  resp_SystemFingerprint :: string
  LatencyMs :: int
  CostUSD :: real

text \<open>
  A streamed chunk, and a stream as the handler observes it: the chunks that \<open>Recv\<close>
  returns one by one, then either \<open>io.EOF\<close> (\<open>None\<close>) or a read error.
\<close>

record StreamChunk =
  chunk_Role :: string
  chunk_Content :: string
  chunk_Usage :: "Usage option"

record StreamReader =
  chunks :: "StreamChunk list"
  recv_error :: "string option"

text \<open>
  The interface \<open>Provider\<close>. A call goes to the network; its outcome for a given
  request is a parameter of the model: \<open>Inl\<close> carries the text of the Go error,
  \<open>Inr\<close> the result.
\<close>

record Provider =
  pChatCompletion :: "ChatRequest \<Rightarrow> string + ChatResponse"
  pChatCompletionStream :: "ChatRequest \<Rightarrow> string + StreamReader"

section \<open>Anthropic request translation (unnamed/part_005)\<close>

record AnthropicMessage =
  am_Role :: string
  am_Content :: string

record AnthropicRequest =
  a_Model :: string
  a_Messages :: "AnthropicMessage list"
  a_MaxTokens :: int
  a_Temperature :: "real ptr"
  System :: string
  a_Stream :: bool

text \<open>
  One iteration of the loop of \<open>convertRequest\<close>: the state is the message list built
  so far and the variable \<open>systemPrompt\<close>.
\<close>

definition convert_step ::
  "AnthropicMessage list \<times> string \<Rightarrow> ChatCompletionMessage \<Rightarrow> AnthropicMessage list \<times> string" where
  "convert_step st msg =
     (if Role msg = ''system'' then (fst st, Content msg)
      else (fst st @ [\<lparr>am_Role = Role msg, am_Content = Content msg\<rparr>], snd st))"

definition convertRequest :: "ChatRequest \<Rightarrow> AnthropicRequest \<times> string" where
  "convertRequest req =
     (let anthropicReq = \<lparr>a_Model = Model req, a_Messages = [], a_MaxTokens = 4096,
                          a_Temperature = Temperature req, System = [], a_Stream = False\<rparr>;
          anthropicReq = (case MaxTokens req of
                            Ptr a n \<Rightarrow> if n > 0 then anthropicReq\<lparr>a_MaxTokens := n\<rparr> else anthropicReq
                          | Nil \<Rightarrow> anthropicReq);
          st = foldl convert_step (a_Messages anthropicReq, []) (Messages req)
      in (anthropicReq\<lparr>a_Messages := fst st\<rparr>, snd st))"

text \<open>
  The request that \<open>ChatCompletion\<close> marshals onto the wire, and the one that
  \<open>ChatCompletionStream\<close> marshals: both copy a non-empty \<open>systemPrompt\<close> into the
  top-level field.
\<close>

definition anthropic_wire_request :: "ChatRequest \<Rightarrow> AnthropicRequest" where
  "anthropic_wire_request req =
     (case convertRequest req of (anthropicReq, systemPrompt) \<Rightarrow>
        if systemPrompt \<noteq> [] then anthropicReq\<lparr>System := systemPrompt\<rparr> else anthropicReq)"

definition anthropic_stream_wire_request :: "ChatRequest \<Rightarrow> AnthropicRequest" where
  "anthropic_stream_wire_request req =
     (case convertRequest req of (anthropicReq, systemPrompt) \<Rightarrow>
        let anthropicReq = anthropicReq\<lparr>a_Stream := True\<rparr>
        in if systemPrompt \<noteq> [] then anthropicReq\<lparr>System := systemPrompt\<rparr> else anthropicReq)"

text \<open>The reading of the claim: what is forwarded, and which system text wins.\<close>

definition forwarded :: "ChatCompletionMessage list \<Rightarrow> AnthropicMessage list" where
  "forwarded ms =
     map (\<lambda>m. \<lparr>am_Role = Role m, am_Content = Content m\<rparr>) (filter (\<lambda>m. Role m \<noteq> ''system'') ms)"

definition last_system :: "ChatCompletionMessage list \<Rightarrow> string" where
  "last_system ms =
     (case rev (filter (\<lambda>m. Role m = ''system'') ms) of [] \<Rightarrow> [] | m # _ \<Rightarrow> Content m)"

section \<open>Cache key (internal/gateway/cache/cache.go)\<close>

text \<open>
  The verb \<open>%v\<close> of package \<open>fmt\<close>: a pointer to a number prints as its address in
  hexadecimal (a nil pointer as \<open><nil>\<close>), a struct as its fields between braces, a
  slice as its elements between brackets, each separated by one space.
\<close>

definition fmt_v_ptr :: "'a ptr \<Rightarrow> string" where
  "fmt_v_ptr p = (case p of Nil \<Rightarrow> ''<nil>'' | Ptr a v \<Rightarrow> ''0x'' @ fmt_x a)"

definition fmt_v_message :: "ChatCompletionMessage \<Rightarrow> string" where
  "fmt_v_message m = ''{'' @ Role m @ '' '' @ Content m @ '' '' @ OtherFields m @ ''}''"

fun join_space :: "string list \<Rightarrow> string" where
  "join_space [] = []"
| "join_space [x] = x"
| "join_space (x # y # ys) = x @ '' '' @ join_space (y # ys)"

definition fmt_v_messages :: "ChatCompletionMessage list \<Rightarrow> string" where
  "fmt_v_messages ms = ''['' @ join_space (map fmt_v_message ms) @ '']''"

text \<open>The string that \<open>generateCacheKey\<close> builds with \<open>"%s:%v:%v:%v:%v"\<close> and hashes.\<close>

definition keyData :: "ChatRequest \<Rightarrow> string" where
  "keyData req =
     Model req @ '':'' @ fmt_v_messages (Messages req) @ '':'' @ fmt_v_ptr (Temperature req)
       @ '':'' @ fmt_v_ptr (MaxTokens req) @ '':'' @ fmt_v_ptr (TopP req)"

text \<open>
  \<open>sha256.Sum256\<close> followed by \<open>hex.EncodeToString\<close> is the standard library's; it is
  the parameter \<open>sha256hex\<close>.
\<close>

definition generateCacheKey :: "(string \<Rightarrow> string) \<Rightarrow> ChatRequest \<Rightarrow> string" where
  "generateCacheKey sha256hex req = ''cache:exact:'' @ sha256hex (keyData req)"

text \<open>The field values the key is meant to depend on: pointers are read through.\<close>

definition cache_fields ::
  "ChatRequest \<Rightarrow> string \<times> (string \<times> string) list \<times> real option \<times> int option \<times> real option" where
  "cache_fields req =
     (Model req, map (\<lambda>m. (Role m, Content m)) (Messages req),
      deref (Temperature req), deref (MaxTokens req), deref (TopP req))"

section \<open>Upstream errors and which are retried (providers/gemini.go, unnamed/part_005, providers/manager.go)\<close>

text \<open>
  What an upstream call can fail with: a response whose status is not 200, with its body,
  or a transport error of the HTTP client, with its message. The Anthropic and the Gemini
  client wrap either into a Go error whose text is built by \<open>fmt.Errorf\<close>.
\<close>

datatype upstream_failure = StatusError nat string | TransportError string

definition api_error :: "string \<Rightarrow> upstream_failure \<Rightarrow> string" where
  "api_error name f =
     (case f of
        StatusError code body \<Rightarrow> name @ '' API error (status '' @ fmt_d code @ ''): '' @ body
      | TransportError msg \<Rightarrow> name @ '' API error: '' @ msg)"

definition isRetryableError :: "string \<Rightarrow> bool" where
  "isRetryableError errStr =
     (Contains errStr ''429'' \<or> Contains errStr ''rate limit'' \<or>
      Contains errStr ''timeout'' \<or> Contains errStr ''status 5'')"

text \<open>
  Modelled from the spec: the classification that the specification says an error
  carries (rate-limited, server error, timeout or connection failure, other), and when a
  class is retryable. The code has no such type; the two definitions below state the
  specification's reading, to compare \<open>isRetryableError\<close> with.
\<close>

datatype error_class = RateLimited | ServerError | TimeoutOrConnection | OtherError

definition classify :: "upstream_failure \<Rightarrow> error_class" where
  "classify f =
     (case f of
        StatusError code body \<Rightarrow>
          if code = 429 then RateLimited
          else if 500 \<le> code \<and> code \<le> 599 then ServerError
          else OtherError
      | TransportError msg \<Rightarrow> TimeoutOrConnection)"

definition class_retryable :: "error_class \<Rightarrow> bool" where
  "class_retryable c = (c = RateLimited \<or> c = ServerError \<or> c = TimeoutOrConnection)"

section \<open>Provider manager and failover (internal/gateway/providers/manager.go)\<close>

record Config =
  OpenAIAPIKey :: string
  AnthropicAPIKey :: string
  GeminiAPIKey :: string

record Manager =
  providers :: "string \<rightharpoonup> Provider"
  failover :: "string \<rightharpoonup> string list"

definition setupFailoverChains :: "string \<rightharpoonup> string list" where
  "setupFailoverChains = map_of [
     (''gpt-4o'', [''claude-sonnet-4-5-20250929'', ''gemini-2.5-pro'']),
     (''gpt-4o-mini'', [''claude-haiku-4-5-20251001'', ''gemini-2.5-flash'']),
     (''gpt-4'', [''claude-opus-4-5-20251101'', ''gemini-2.5-pro'']),
     (''claude-sonnet-4-5-20250929'', [''gpt-4o'', ''gemini-2.5-pro'']),
     (''claude-haiku-4-5-20251001'', [''gpt-4o-mini'', ''gemini-2.5-flash'']),
     (''gemini-2.5-flash'', [''gpt-4o-mini'', ''claude-haiku-4-5-20251001'']),
     (''gemini-2.5-pro'', [''gpt-4o'', ''claude-sonnet-4-5-20250929''])]"

text \<open>
  \<open>NewManager\<close>: a provider is registered when its key is not empty. The three
  constructors build network clients; they are parameters.
\<close>

definition NewManager ::
  "(string \<Rightarrow> Provider) \<Rightarrow> (string \<Rightarrow> Provider) \<Rightarrow> (string \<Rightarrow> Provider) \<Rightarrow> Config \<Rightarrow> Manager" where
  "NewManager NewOpenAIProvider NewAnthropicProvider NewGeminiProvider cfg =
     (let ps = Map.empty;
          ps = (if OpenAIAPIKey cfg \<noteq> [] then ps(''openai'' \<mapsto> NewOpenAIProvider (OpenAIAPIKey cfg)) else ps);
          ps = (if AnthropicAPIKey cfg \<noteq> [] then ps(''anthropic'' \<mapsto> NewAnthropicProvider (AnthropicAPIKey cfg)) else ps);
          ps = (if GeminiAPIKey cfg \<noteq> [] then ps(''google'' \<mapsto> NewGeminiProvider (GeminiAPIKey cfg)) else ps)
      in \<lparr>providers = ps, failover = setupFailoverChains\<rparr>)"

definition detectProvider :: "string \<Rightarrow> string" where
  "detectProvider model =
     (if HasPrefix model ''gpt-'' then ''openai''
      else if HasPrefix model ''claude-'' then ''anthropic''
      else if HasPrefix model ''gemini-'' then ''google''
      else [])"

definition GetProvider :: "Manager \<Rightarrow> string \<Rightarrow> string + (Provider \<times> string)" where
  "GetProvider m model =
     (let providerName = detectProvider model
      in if providerName = [] then Inl (''unknown model: '' @ model)
         else case providers m providerName of
                None \<Rightarrow> Inl (''provider '' @ providerName @ '' not configured (check API key)'')
              | Some provider \<Rightarrow> Inr (provider, providerName))"

definition GetFailoverChain :: "Manager \<Rightarrow> string \<Rightarrow> string list" where
  "GetFailoverChain m model =
     (case failover m model of
        None \<Rightarrow> []
      | Some chain \<Rightarrow>
          filter (\<lambda>fallbackModel. providers m (detectProvider fallbackModel) \<noteq> None) chain)"

text \<open>
  A provider call as the orchestrator makes it: the provider's name and the request it
  was handed. \<open>ChatCompletion\<close> returns, beside the four values of the Go function
  (response, provider name, \<open>failoverUsed\<close>, error), the calls it made, in order.
\<close>

type_synonym provider_call = "string \<times> ChatRequest"

type_synonym completion = "ChatResponse option \<times> string \<times> bool \<times> string option"

text \<open>
  The loop over the failover chain. The assignment \<open>req.Model = fallbackModel\<close> comes
  before the lookup and stays in force for the iterations that follow.
\<close>

fun try_fallbacks ::
  "Manager \<Rightarrow> ChatRequest \<Rightarrow> string list \<Rightarrow> (ChatResponse \<times> string) option \<times> provider_call list" where
  "try_fallbacks m req [] = (None, [])"
| "try_fallbacks m req (fallbackModel # rest) =
     (let req = req\<lparr>Model := fallbackModel\<rparr>
      in case GetProvider m fallbackModel of
           Inl err \<Rightarrow> try_fallbacks m req rest
         | Inr (provider, providerName) \<Rightarrow>
             (case pChatCompletion provider req of
                Inr resp \<Rightarrow> (Some (resp, providerName), [(providerName, req)])
              | Inl err \<Rightarrow>
                  (case try_fallbacks m req rest of
                     (r, calls) \<Rightarrow> (r, (providerName, req) # calls))))"

definition ChatCompletion :: "Manager \<Rightarrow> ChatRequest \<Rightarrow> completion \<times> provider_call list" where
  "ChatCompletion m req =
     (let originalModel = Model req;
          originalProvider = detectProvider originalModel
      in case GetProvider m (Model req) of
           Inl err \<Rightarrow> ((None, [], False, Some err), [])
         | Inr (provider, providerName) \<Rightarrow>
             (case pChatCompletion provider req of
                Inr resp \<Rightarrow> ((Some resp, providerName, False, None), [(providerName, req)])
              | Inl err \<Rightarrow>
                  if \<not> isRetryableError err
                  then ((None, providerName, False, Some err), [(providerName, req)])
                  else (case try_fallbacks m req (GetFailoverChain m originalModel) of
                          (Some (resp, fallbackName), calls) \<Rightarrow>
                            ((Some resp, fallbackName, True, None), (providerName, req) # calls)
                        | (None, calls) \<Rightarrow>
                            ((None, originalProvider, False,
                              Some (''all providers failed for model '' @ originalModel)),
                             (providerName, req) # calls))))"

text \<open>
  For stating what the loop does: the outcome of one fallback attempt for the original
  request, and whether a fallback model resolves to a configured provider.
\<close>

definition attempt :: "Manager \<Rightarrow> ChatRequest \<Rightarrow> string \<Rightarrow> string + ChatResponse" where
  "attempt m req fallbackModel =
     (case GetProvider m fallbackModel of
        Inl err \<Rightarrow> Inl err
      | Inr (provider, providerName) \<Rightarrow> pChatCompletion provider (req\<lparr>Model := fallbackModel\<rparr>))"

definition routable :: "Manager \<Rightarrow> string \<Rightarrow> bool" where
  "routable m model = (case GetProvider m model of Inl err \<Rightarrow> False | Inr pr \<Rightarrow> True)"

definition call_of :: "ChatRequest \<Rightarrow> string \<Rightarrow> provider_call" where
  "call_of req fallbackModel = (detectProvider fallbackModel, req\<lparr>Model := fallbackModel\<rparr>)"

section \<open>The shared store (package redis, in internal/shared/database/db.go)\<close>

text \<open>
  The Redis server as the gateway uses it. A value is a decimal integer (what
  \<open>SET key 1\<close> and \<open>INCR\<close> leave) or another string; a key may carry the time, in
  seconds, at which it expires. Each command is one atomic step of the server. A command
  can fail (server unreachable): \<open>faults\<close> is the schedule of the coming commands'
  outcomes, \<open>True\<close> for a failure, and an exhausted schedule means no failure. Every
  command issued is recorded in \<open>oplog\<close>.
\<close>

datatype rval = IntVal int | StrVal string

datatype redis_cmd = GET string | SET string | INCR string | EXPIRE string

record Redis =
  kv :: "string \<rightharpoonup> rval \<times> nat option"
  faults :: "bool list"
  oplog :: "redis_cmd list"

datatype 'a reply = Reply 'a | NilReply | Failed string

definition issue :: "redis_cmd \<Rightarrow> Redis \<Rightarrow> bool \<times> Redis" where
  "issue c r =
     (case faults r of
        [] \<Rightarrow> (False, r\<lparr>oplog := oplog r @ [c]\<rparr>)
      | f # fs \<Rightarrow> (f, r\<lparr>faults := fs, oplog := oplog r @ [c]\<rparr>))"

definition live :: "nat \<Rightarrow> Redis \<Rightarrow> string \<Rightarrow> rval option" where
  "live now r key =
     (case kv r key of
        None \<Rightarrow> None
      | Some (v, None) \<Rightarrow> Some v
      | Some (v, Some expiry) \<Rightarrow> if now < expiry then Some v else None)"

definition expiry_of :: "Redis \<Rightarrow> string \<Rightarrow> nat option" where
  "expiry_of r key = (case kv r key of None \<Rightarrow> None | Some (v, e) \<Rightarrow> e)"

definition connection_error :: string where
  "connection_error = ''redis: connection refused''"

definition not_integer_error :: string where
  "not_integer_error = ''ERR value is not an integer or out of range''"

text \<open>\<open>client.Get(ctx, key)\<close> read with \<open>.Int()\<close> and with \<open>.Result()\<close>.\<close>

definition redis_GetInt :: "nat \<Rightarrow> string \<Rightarrow> Redis \<Rightarrow> int reply \<times> Redis" where
  "redis_GetInt now key r =
     (case issue (GET key) r of
        (True, r') \<Rightarrow> (Failed connection_error, r')
      | (False, r') \<Rightarrow>
          (case live now r' key of
             None \<Rightarrow> (NilReply, r')
           | Some (IntVal n) \<Rightarrow> (Reply n, r')
           | Some (StrVal s) \<Rightarrow> (Failed not_integer_error, r')))"

fun fmt_int :: "int \<Rightarrow> string" where
  "fmt_int i = (if i < 0 then ''-'' @ fmt_d (nat (- i)) else fmt_d (nat i))"

definition redis_GetString :: "nat \<Rightarrow> string \<Rightarrow> Redis \<Rightarrow> string reply \<times> Redis" where
  "redis_GetString now key r =
     (case issue (GET key) r of
        (True, r') \<Rightarrow> (Failed connection_error, r')
      | (False, r') \<Rightarrow>
          (case live now r' key of
             None \<Rightarrow> (NilReply, r')
           | Some (IntVal n) \<Rightarrow> (Reply (fmt_int n), r')
           | Some (StrVal s) \<Rightarrow> (Reply s, r')))"

text \<open>\<open>SET key value\<close> with a time to live in seconds; \<open>0\<close> means no expiry.\<close>

definition redis_Set :: "nat \<Rightarrow> string \<Rightarrow> rval \<Rightarrow> nat \<Rightarrow> Redis \<Rightarrow> string option \<times> Redis" where
  "redis_Set now key v ttl r =
     (case issue (SET key) r of
        (True, r') \<Rightarrow> (Some connection_error, r')
      | (False, r') \<Rightarrow>
          (None, r'\<lparr>kv := (kv r')(key \<mapsto> (v, if ttl = 0 then None else Some (now + ttl)))\<rparr>))"

text \<open>\<open>INCR\<close>: an absent or expired key counts from 0 and gets no expiry.\<close>

definition redis_Incr :: "nat \<Rightarrow> string \<Rightarrow> Redis \<Rightarrow> (string + int) \<times> Redis" where
  "redis_Incr now key r =
     (case issue (INCR key) r of
        (True, r') \<Rightarrow> (Inl connection_error, r')
      | (False, r') \<Rightarrow>
          (case live now r' key of
             None \<Rightarrow> (Inr 1, r'\<lparr>kv := (kv r')(key \<mapsto> (IntVal 1, None))\<rparr>)
           | Some (IntVal n) \<Rightarrow>
               (Inr (n + 1), r'\<lparr>kv := (kv r')(key \<mapsto> (IntVal (n + 1), expiry_of r' key))\<rparr>)
           | Some (StrVal s) \<Rightarrow> (Inl not_integer_error, r')))"

definition redis_Expire :: "nat \<Rightarrow> string \<Rightarrow> nat \<Rightarrow> Redis \<Rightarrow> string option \<times> Redis" where
  "redis_Expire now key ttl r =
     (case issue (EXPIRE key) r of
        (True, r') \<Rightarrow> (Some connection_error, r')
      | (False, r') \<Rightarrow>
          (case live now r' key of
             None \<Rightarrow> (None, r')
           | Some v \<Rightarrow> (None, r'\<lparr>kv := (kv r')(key \<mapsto> (v, Some (now + ttl)))\<rparr>)))"

text \<open>The wrapper \<open>Client.Get\<close>: a missing key is the error \<open>key not found\<close>.\<close>

definition Client_Get :: "nat \<Rightarrow> string \<Rightarrow> Redis \<Rightarrow> (string + string) \<times> Redis" where
  "Client_Get now key r =
     (case redis_GetString now key r of
        (NilReply, r') \<Rightarrow> (Inl ''key not found'', r')
      | (Failed err, r') \<Rightarrow> (Inl err, r')
      | (Reply val, r') \<Rightarrow> (Inr val, r'))"

section \<open>Rate limiter (CheckRateLimit, in internal/shared/database/db.go)\<close>

text \<open>
  \<open>CheckRateLimit\<close> returns the Go triple (exceeded, remaining, error). It issues
  \<open>GET\<close> first and then, depending on the reply, \<open>SET\<close>, nothing, or \<open>INCR\<close>
  (and \<open>EXPIRE\<close>): \<open>after_get\<close> is the function's body from the first \<open>if\<close> on.
  \<open>time.Minute\<close> is 60 seconds, and \<open>now\<close> is the store's clock, in seconds, read
  once for the commands of one check.
\<close>

type_synonym rate_result = "bool \<times> int \<times> string option"

definition ratelimit_key :: "string \<Rightarrow> string" where
  "ratelimit_key apiKeyID = ''ratelimit:'' @ apiKeyID"

definition after_get :: "nat \<Rightarrow> string \<Rightarrow> int \<Rightarrow> int reply \<Rightarrow> Redis \<Rightarrow> rate_result \<times> Redis" where
  "after_get now key limit got r =
     (case got of
        NilReply \<Rightarrow>
          (case redis_Set now key (IntVal 1) 60 r of
             (Some err, r') \<Rightarrow> ((False, 0, Some err), r')
           | (None, r') \<Rightarrow> ((False, limit - 1, None), r'))
      | Failed err \<Rightarrow> ((False, 0, Some err), r)
      | Reply count \<Rightarrow>
          if count \<ge> limit then ((True, 0, None), r)
          else
            (case redis_Incr now key r of
               (Inl err, r') \<Rightarrow> ((False, 0, Some err), r')
             | (Inr newCount, r') \<Rightarrow>
                 (let r'' = (if newCount = 1 then snd (redis_Expire now key 60 r') else r');
                      remaining = limit - newCount;
                      remaining = (if remaining < 0 then 0 else remaining)
                  in ((False, remaining, None), r''))))"

definition CheckRateLimit :: "nat \<Rightarrow> string \<Rightarrow> int \<Rightarrow> Redis \<Rightarrow> rate_result \<times> Redis" where
  "CheckRateLimit now apiKeyID limit r =
     (let key = ratelimit_key apiKeyID
      in case redis_GetInt now key r of (got, r') \<Rightarrow> after_get now key limit got r')"

text \<open>A run of checks by one caller, one after the other, at the given times.\<close>

fun checks :: "nat list \<Rightarrow> string \<Rightarrow> int \<Rightarrow> Redis \<Rightarrow> rate_result list \<times> Redis" where
  "checks [] apiKeyID limit r = ([], r)"
| "checks (t # ts) apiKeyID limit r =
     (case CheckRateLimit t apiKeyID limit r of
        (res, r') \<Rightarrow> (case checks ts apiKeyID limit r' of (rs, r'') \<Rightarrow> (res # rs, r'')))"

text \<open>
  Two checks A and B running concurrently, in the interleaving where both have their
  \<open>GET\<close> answered before either goes on: the server sees \<open>GET\<close> (A), \<open>GET\<close> (B),
  then the rest of A, then the rest of B.
\<close>

definition interleaved_checks ::
  "nat \<Rightarrow> string \<Rightarrow> int \<Rightarrow> Redis \<Rightarrow> rate_result \<times> rate_result \<times> Redis" where
  "interleaved_checks now apiKeyID limit r =
     (let key = ratelimit_key apiKeyID
      in case redis_GetInt now key r of (gotA, r1) \<Rightarrow>
         case redis_GetInt now key r1 of (gotB, r2) \<Rightarrow>
         case after_get now key limit gotA r2 of (resA, r3) \<Rightarrow>
         case after_get now key limit gotB r3 of (resB, r4) \<Rightarrow> (resA, resB, r4))"

definition admitted :: "rate_result \<Rightarrow> bool" where
  "admitted res = (case res of (exceeded, remaining, err) \<Rightarrow> err = None \<and> \<not> exceeded)"

section \<open>Rate-limit middleware (internal/gateway/handlers/middleware.go)\<close>

record APIKey =
  ID :: string
  RateLimitPerMinute :: int
  CacheEnabled :: bool
  CacheTTLSeconds :: nat

type_synonym headers = "string \<rightharpoonup> string"

text \<open>
  What the middleware does with a request: hand it to the next handler, with the
  response headers as they stand, or answer it itself through \<open>http.Error\<close>.
\<close>

datatype mw_result = Next headers | Rejected nat headers string

text \<open>
  \<open>respond\<close> is the middleware's body after the call of \<open>CheckRateLimit\<close>: what it
  does with the triple that call returned.
\<close>

definition respond :: "int \<Rightarrow> headers \<Rightarrow> rate_result \<Rightarrow> mw_result" where
  "respond limit h res =
     (case res of
        (exceeded, remaining, Some err) \<Rightarrow> Next h
      | (exceeded, remaining, None) \<Rightarrow>
          (let h = h(''X-RateLimit-Limit'' \<mapsto> fmt_int limit);
               h = h(''X-RateLimit-Remaining'' \<mapsto> fmt_int remaining)
           in if exceeded
              then Rejected 429 (h(''Retry-After'' \<mapsto> ''60'')) ''rate limit exceeded''
              else Next h))"

definition RateLimitMiddleware ::
  "nat \<Rightarrow> APIKey option \<Rightarrow> headers \<Rightarrow> Redis \<Rightarrow> mw_result \<times> Redis" where
  "RateLimitMiddleware now ctx_api_key h r =
     (case ctx_api_key of
        None \<Rightarrow> (Next h, r)
      | Some apiKey \<Rightarrow>
          (let limit = RateLimitPerMinute apiKey;
               limit = (if limit \<le> 0 then 100 else limit)
           in case CheckRateLimit now (ID apiKey) limit r of
                (res, r') \<Rightarrow> (respond limit h res, r')))"

text \<open>A run of requests by one caller through the middleware, each with fresh headers.\<close>

fun serve :: "nat list \<Rightarrow> APIKey \<Rightarrow> Redis \<Rightarrow> mw_result list \<times> Redis" where
  "serve [] apiKey r = ([], r)"
| "serve (t # ts) apiKey r =
     (case RateLimitMiddleware t (Some apiKey) Map.empty r of
        (res, r') \<Rightarrow> (case serve ts apiKey r' of (rs, r'') \<Rightarrow> (res # rs, r'')))"

section \<open>Cache layer (internal/gateway/cache/cache.go)\<close>

text \<open>
  The standard library's functions that the cache layer and the handler call are the
  fields of \<open>Codec\<close>: the hash, the JSON encoding of a response with its decoding,
  which can fail, and \<open>%.6f\<close> of a cost.
\<close>

record Codec =
  sha256hex :: "string \<Rightarrow> string"
  Marshal :: "ChatResponse \<Rightarrow> string"
  Unmarshal :: "string \<Rightarrow> ChatResponse option"
  Sprintf_6f :: "real \<Rightarrow> string"

definition Cache_Get :: "Codec \<Rightarrow> nat \<Rightarrow> ChatRequest \<Rightarrow> Redis \<Rightarrow> (string + ChatResponse) \<times> Redis" where
  "Cache_Get c now req r =
     (let key = generateCacheKey (sha256hex c) req
      in case Client_Get now key r of
           (Inl err, r') \<Rightarrow> (Inl err, r')
         | (Inr val, r') \<Rightarrow>
             (case Unmarshal c val of
                None \<Rightarrow> (Inl ''failed to deserialize cached response'', r')
              | Some cachedResp \<Rightarrow> (Inr cachedResp, r')))"

definition Cache_Set ::
  "Codec \<Rightarrow> nat \<Rightarrow> ChatRequest \<Rightarrow> ChatResponse \<Rightarrow> nat \<Rightarrow> Redis \<Rightarrow> string option \<times> Redis" where
  "Cache_Set c now req resp ttl r =
     (let key = generateCacheKey (sha256hex c) req
      in redis_Set now key (StrVal (Marshal c resp)) ttl r)"

section \<open>Request handler (unnamed/part_004)\<close>

text \<open>
  The two prices of a row of the table \<open>model_pricing\<close> (columns of type
  \<open>DECIMAL(10,6)\<close>, scanned into \<open>float64\<close>).
\<close>

record ModelPricing =
  InputPer1kTokens :: real
  OutputPer1kTokens :: real

record GatewayLog =
  log_APIKeyID :: string
  log_Model :: string
  log_Provider :: string
  log_CostUSD :: real
  log_LatencyMs :: int
  log_PromptTokens :: int
  log_CompletionTokens :: int
  log_TotalTokens :: int
  log_CacheHit :: bool
  log_FailoverUsed :: bool
  log_StatusCode :: int
  log_ErrorMessage :: "string option"

text \<open>
  The handler's collaborators: the provider manager, the codec of the cache layer, and
  the pricing table of the database, whose lookup fails when there is no row.
\<close>

record ChatHandler =
  providerMgr :: Manager
  codec :: Codec
  GetModelPricing :: "string \<Rightarrow> string \<Rightarrow> string + ModelPricing"

text \<open>
  What a request can change: the shared store, the request log and the list of keys
  whose last use was recorded (both written by detached goroutines).
\<close>

record World =
  redis :: Redis
  gateway_logs :: "GatewayLog list"
  last_used :: "string list"

datatype frame = ChunkFrame StreamChunk | ErrorFrame string | DoneFrame

datatype body = Text string | Json ChatResponse | EventStream "frame list"

record HttpResponse =
  status :: nat
  out_headers :: headers
  out_body :: body

definition calculateCost :: "ChatHandler \<Rightarrow> string \<Rightarrow> string \<Rightarrow> Usage \<Rightarrow> real \<times> string option" where
  "calculateCost h provider model usage =
     (case GetModelPricing h provider model of
        Inl err \<Rightarrow> (0, Some err)
      | Inr pricing \<Rightarrow>
          (let inputCost = real_of_int (PromptTokens usage) / 1000 * InputPer1kTokens pricing;
               outputCost = real_of_int (CompletionTokens usage) / 1000 * OutputPer1kTokens pricing
           in (inputCost + outputCost, None)))"

definition logRequest ::
  "APIKey \<Rightarrow> ChatRequest \<Rightarrow> ChatResponse option \<Rightarrow> string \<Rightarrow> int \<Rightarrow> bool \<Rightarrow> bool \<Rightarrow> string option
     \<Rightarrow> World \<Rightarrow> World" where
  "logRequest apiKey req resp provider duration_ms cacheHit failoverUsed err w =
     (let lg = \<lparr>log_APIKeyID = ID apiKey, log_Model = Model req, log_Provider = provider,
                log_CostUSD = 0, log_LatencyMs = duration_ms, log_PromptTokens = 0,
                log_CompletionTokens = 0, log_TotalTokens = 0, log_CacheHit = cacheHit,
                log_FailoverUsed = failoverUsed, log_StatusCode = 200, log_ErrorMessage = None\<rparr>;
          lg = (case resp of
                  None \<Rightarrow> lg
                | Some rs \<Rightarrow> lg\<lparr>log_CostUSD := CostUSD rs,
                               log_PromptTokens := PromptTokens (resp_Usage rs),
                               log_CompletionTokens := CompletionTokens (resp_Usage rs),
                               log_TotalTokens := TotalTokens (resp_Usage rs)\<rparr>);
          lg = (case err of
                  None \<Rightarrow> lg
                | Some errMsg \<Rightarrow> lg\<lparr>log_StatusCode := 500, log_ErrorMessage := Some errMsg\<rparr>)
      in w\<lparr>gateway_logs := gateway_logs w @ [lg], last_used := last_used w @ [ID apiKey]\<rparr>)"

text \<open>
  The receive loop of \<open>handleStreamingChat\<close>: every chunk is written as a frame, and
  \<open>totalTokens\<close> takes the total of the latest chunk that carries a usage.
\<close>

definition recv_step :: "frame list \<times> int \<Rightarrow> StreamChunk \<Rightarrow> frame list \<times> int" where
  "recv_step st chunk =
     (fst st @ [ChunkFrame chunk],
      case chunk_Usage chunk of None \<Rightarrow> snd st | Some u \<Rightarrow> TotalTokens u)"

definition zero_response :: ChatResponse where
  "zero_response =
     \<lparr>resp_ID = [], resp_Object = [], resp_Created = 0, resp_Model = [], resp_Choices = [],
      resp_Usage = \<lparr>PromptTokens = 0, CompletionTokens = 0, TotalTokens = 0\<rparr>,
      resp_SystemFingerprint = [], LatencyMs = 0, CostUSD = 0\<rparr>"

definition sse_headers :: headers where
  "sse_headers =
     [''Content-Type'' \<mapsto> ''text/event-stream'', ''Cache-Control'' \<mapsto> ''no-cache'',
      ''Connection'' \<mapsto> ''keep-alive'', ''X-Accel-Buffering'' \<mapsto> ''no'']"

text \<open>
  \<open>elapsed_ms\<close> is what \<open>time.Since(startTime)\<close> reads, \<open>can_flush\<close> whether the
  response writer is an \<open>http.Flusher\<close>.
\<close>

definition handleStreamingChat ::
  "ChatHandler \<Rightarrow> int \<Rightarrow> bool \<Rightarrow> APIKey \<Rightarrow> ChatRequest \<Rightarrow> World \<Rightarrow> HttpResponse \<times> World" where
  "handleStreamingChat h elapsed_ms can_flush apiKey req w =
     (if \<not> can_flush
      then (\<lparr>status = 500, out_headers = sse_headers, out_body = Text ''streaming not supported''\<rparr>, w)
      else case GetProvider (providerMgr h) (Model req) of
        Inl err \<Rightarrow>
          (\<lparr>status = 500, out_headers = sse_headers, out_body = Text (''provider error: '' @ err)\<rparr>, w)
      | Inr (provider, providerName) \<Rightarrow>
          (case pChatCompletionStream provider req of
             Inl err \<Rightarrow>
               (\<lparr>status = 500, out_headers = sse_headers,
                 out_body = Text (''streaming error: '' @ err)\<rparr>, w)
           | Inr stream \<Rightarrow>
               (case foldl recv_step ([], 0) (chunks stream) of
                  (frames, totalTokens) \<Rightarrow>
                    (case recv_error stream of
                       Some err \<Rightarrow>
                         (\<lparr>status = 200, out_headers = sse_headers,
                           out_body = EventStream (frames @ [ErrorFrame err])\<rparr>, w)
                     | None \<Rightarrow>
                         (let usage = \<lparr>PromptTokens = 0, CompletionTokens = 0,
                                        TotalTokens = totalTokens\<rparr>;
                              resp = zero_response\<lparr>resp_Usage := usage\<rparr>;
                              cost = fst (calculateCost h providerName (Model req) usage);
                              resp = resp\<lparr>CostUSD := cost\<rparr>
                          in (\<lparr>status = 200, out_headers = sse_headers,
                               out_body = EventStream (frames @ [DoneFrame])\<rparr>,
                              logRequest apiKey req (Some resp) providerName elapsed_ms
                                False False None w))))))"

text \<open>
  \<open>HandleChatCompletion\<close>. The API key is what the request context holds, the decoded
  body is \<open>None\<close> when the JSON does not parse, \<open>now\<close> is the store's clock.
  \<open>ChatCompletion\<close> returns a response exactly when it returns no error, so the branch
  with neither is never taken (Go would dereference nil).
\<close>

definition fmt_bool :: "bool \<Rightarrow> string" where
  "fmt_bool b = (if b then ''true'' else ''false'')"

definition HandleChatCompletion ::
  "ChatHandler \<Rightarrow> nat \<Rightarrow> int \<Rightarrow> bool \<Rightarrow> APIKey option \<Rightarrow> ChatRequest option
     \<Rightarrow> World \<Rightarrow> HttpResponse \<times> World" where
  "HandleChatCompletion h now elapsed_ms can_flush ctx_api_key decoded w =
     (case ctx_api_key of
        None \<Rightarrow> (\<lparr>status = 401, out_headers = Map.empty, out_body = Text ''unauthorized''\<rparr>, w)
      | Some apiKey \<Rightarrow>
     (case decoded of
        None \<Rightarrow> (\<lparr>status = 400, out_headers = Map.empty, out_body = Text ''invalid request body''\<rparr>, w)
      | Some req \<Rightarrow>
     if Stream req then handleStreamingChat h elapsed_ms can_flush apiKey req w
     else
       (let (hit, w1) =
              (if CacheEnabled apiKey
               then (case Cache_Get (codec h) now req (redis w) of
                       (Inr cachedResp, r') \<Rightarrow> (Some (cachedResp\<lparr>CostUSD := 0\<rparr>), w\<lparr>redis := r'\<rparr>)
                     | (Inl err, r') \<Rightarrow> (None, w\<lparr>redis := r'\<rparr>))
               else (None, w));
            finish = (\<lambda>resp cacheHit providerName failoverUsed w2.
              (let resp = resp\<lparr>LatencyMs := elapsed_ms\<rparr>;
                   hd = [''Content-Type'' \<mapsto> ''application/json'',
                         ''X-Cache-Hit'' \<mapsto> fmt_bool cacheHit,
                         ''X-Cost-USD'' \<mapsto> Sprintf_6f (codec h) (CostUSD resp),
                         ''X-Provider'' \<mapsto> providerName,
                         ''X-Latency-Ms'' \<mapsto> fmt_int elapsed_ms];
                   hd = (if failoverUsed then hd(''X-Failover'' \<mapsto> ''true'') else hd)
               in (\<lparr>status = 200, out_headers = hd, out_body = Json resp\<rparr>,
                   logRequest apiKey req (Some resp) providerName elapsed_ms cacheHit
                     failoverUsed None w2)))
        in case hit of
             Some resp \<Rightarrow> finish resp True [] False w1
           | None \<Rightarrow>
               (case fst (ChatCompletion (providerMgr h) req) of
                  (_, providerName, failoverUsed, Some err) \<Rightarrow>
                    (\<lparr>status = 500, out_headers = Map.empty,
                      out_body = Text (''provider error: '' @ err)\<rparr>,
                     logRequest apiKey req None providerName elapsed_ms False failoverUsed
                       (Some err) w1)
                | (None, providerName, failoverUsed, None) \<Rightarrow>
                    (\<lparr>status = 500, out_headers = Map.empty, out_body = Text []\<rparr>, w1)
                | (Some resp, providerName, failoverUsed, None) \<Rightarrow>
                    (let cost = fst (calculateCost h providerName (Model req) (resp_Usage resp));
                         resp = resp\<lparr>CostUSD := cost\<rparr>;
                         w2 = (if CacheEnabled apiKey
                               then w1\<lparr>redis := snd (Cache_Set (codec h) now req resp
                                                          (CacheTTLSeconds apiKey) (redis w1))\<rparr>
                               else w1)
                     in finish resp False providerName failoverUsed w2)))))"

section \<open>Concrete providers, configurations and requests\<close>

text \<open>
  Inputs for evaluating the definitions: a provider that answers every request, echoing
  the request's model as the serving model; a provider whose every call fails with a
  given upstream failure, worded as the Anthropic and Gemini clients word it; a manager
  built by \<open>NewManager\<close> with all three keys set; a one-message request.
\<close>

definition echo_response :: "ChatRequest \<Rightarrow> ChatResponse" where
  "echo_response req =
     zero_response\<lparr>resp_Model := Model req,
                    resp_Usage := \<lparr>PromptTokens = 12, CompletionTokens = 3, TotalTokens = 15\<rparr>\<rparr>"

definition echo_stream :: StreamReader where
  "echo_stream =
     \<lparr>chunks = [\<lparr>chunk_Role = ''assistant'', chunk_Content = [], chunk_Usage = None\<rparr>,
                \<lparr>chunk_Role = [], chunk_Content = ''4'',
                 chunk_Usage = Some \<lparr>PromptTokens = 12, CompletionTokens = 3, TotalTokens = 15\<rparr>\<rparr>],
      recv_error = None\<rparr>"

definition echo_provider :: Provider where
  "echo_provider =
     \<lparr>pChatCompletion = (\<lambda>req. Inr (echo_response req)),
      pChatCompletionStream = (\<lambda>req. Inr echo_stream)\<rparr>"

definition failing_provider :: "string \<Rightarrow> upstream_failure \<Rightarrow> Provider" where
  "failing_provider name f =
     \<lparr>pChatCompletion = (\<lambda>req. Inl (api_error name f)),
      pChatCompletionStream = (\<lambda>req. Inl (api_error name f))\<rparr>"

definition all_keys :: Config where
  "all_keys = \<lparr>OpenAIAPIKey = ''sk-openai'', AnthropicAPIKey = ''sk-ant'', GeminiAPIKey = ''gm-key''\<rparr>"

definition manager_of :: "Provider \<Rightarrow> Provider \<Rightarrow> Provider \<Rightarrow> Manager" where
  "manager_of openai anthropic google = NewManager (\<lambda>k. openai) (\<lambda>k. anthropic) (\<lambda>k. google) all_keys"

definition user_request :: "string \<Rightarrow> ChatRequest" where
  "user_request model =
     \<lparr>Model = model, Messages = [\<lparr>Role = ''user'', Content = ''2+2?'', OtherFields = ''[] <nil> [] ''\<rparr>],
      Temperature = Nil, MaxTokens = Nil, TopP = Nil, Stream = False\<rparr>"

definition too_long_400 :: upstream_failure where
  "too_long_400 =
     StatusError 400 ''invalid_request_error: prompt is too long: 214290 tokens > 200000 maximum''"


definition connection_refused :: upstream_failure where
  \<open>connection_refused = TransportError
     ''Post "https://api.anthropic.com/v1/messages": dial tcp 160.79.104.10:443: connect: connection refused''\<close>

definition max_tokens_400 :: upstream_failure where
  \<open>max_tokens_400 = StatusError 400
     ''{"type":"error","error":{"type":"invalid_request_error","message":"max_tokens: 42900 > 8192, which is the maximum allowed number of output tokens for claude-haiku-4-5-20251001"}}''\<close>

definition openai_503 :: upstream_failure where
  "openai_503 = TransportError
     ''error, status code: 503, status: 503 Service Unavailable, message: The server is overloaded''"

definition request_with_max_tokens :: "int \<Rightarrow> ChatRequest" where
  "request_with_max_tokens n =
     (user_request ''claude-haiku-4-5-20251001'')\<lparr>MaxTokens := Ptr 0xc000012350 n\<rparr>"

definition empty_store :: Redis where
  "empty_store = \<lparr>kv = Map.empty, faults = [], oplog = []\<rparr>"

definition unreachable_store :: Redis where
  "unreachable_store = \<lparr>kv = Map.empty, faults = [True], oplog = []\<rparr>"

definition caller :: "int \<Rightarrow> APIKey" where
  "caller limit =
     \<lparr>ID = ''key-1'', RateLimitPerMinute = limit, CacheEnabled = True, CacheTTLSeconds = 3600\<rparr>"

text \<open>
  A handler over echoing providers, with a pricing row for every model and stand-ins for
  the library codec (the key data itself for its digest, the serving model for the JSON
  text, the cost in millionths for its six decimals), and requests that differ only in the cell holding the temperature.
\<close>

definition plain_codec :: Codec where
  "plain_codec =
     \<lparr>sha256hex = (\<lambda>s. s), Marshal = (\<lambda>resp. resp_Model resp),
      Unmarshal = (\<lambda>s. Some (zero_response\<lparr>resp_Model := s\<rparr>)),
      Sprintf_6f = (\<lambda>c. fmt_int \<lfloor>c * 1000000\<rfloor> @ ''e-6'')\<rparr>"

definition echo_handler :: ChatHandler where
  "echo_handler =
     \<lparr>providerMgr = manager_of echo_provider echo_provider echo_provider,
      codec = plain_codec,
      GetModelPricing = (\<lambda>provider model.
         Inr \<lparr>InputPer1kTokens = 3 / 1000, OutputPer1kTokens = 15 / 1000\<rparr>)\<rparr>"

definition fresh_world :: World where
  "fresh_world = \<lparr>redis = empty_store, gateway_logs = [], last_used = []\<rparr>"

definition request_with_temperature_at :: "nat \<Rightarrow> ChatRequest" where
  "request_with_temperature_at a = (user_request ''gpt-4o-mini'')\<lparr>Temperature := Ptr a (7 / 10)\<rparr>"

section \<open>Properties of the Anthropic translation\<close>

lemma case_snoc_head:
  "(case xs @ [m] of [] \<Rightarrow> a | y # _ \<Rightarrow> f y) = (case xs of [] \<Rightarrow> f m | y # _ \<Rightarrow> f y)"
  by (cases xs) simp_all

lemma foldl_convert_step:
  "foldl convert_step (acc, sp) ms =
     (acc @ forwarded ms,
      case rev (filter (\<lambda>m. Role m = ''system'') ms) of [] \<Rightarrow> sp | m # _ \<Rightarrow> Content m)"
proof (induction ms arbitrary: acc sp)
  case Nil
  show ?case by (simp add: forwarded_def)
next
  case (Cons m ms)
  have unroll: "foldl convert_step (acc, sp) (m # ms) = foldl convert_step (convert_step (acc, sp) m) ms"
    by simp
  show ?case
  proof (cases "Role m = ''system''")
    case True
    then have "convert_step (acc, sp) m = (acc, Content m)"
      by (simp add: convert_step_def)
    with True show ?thesis
      unfolding unroll by (simp add: Cons.IH forwarded_def case_snoc_head)
  next
    case False
    then have "convert_step (acc, sp) m = (acc @ [\<lparr>am_Role = Role m, am_Content = Content m\<rparr>], sp)"
      by (simp add: convert_step_def)
    with False show ?thesis
      unfolding unroll by (simp add: Cons.IH forwarded_def)
  qed
qed

lemma convertRequest_messages:
  "a_Messages (fst (convertRequest req)) = forwarded (Messages req)"
  by (simp add: convertRequest_def Let_def foldl_convert_step split: ptr.splits)

lemma convertRequest_system_prompt:
  "snd (convertRequest req) = last_system (Messages req)"
  by (simp add: convertRequest_def Let_def foldl_convert_step last_system_def split: ptr.splits)

lemma convertRequest_system_field:
  "System (fst (convertRequest req)) = []"
  by (simp add: convertRequest_def Let_def split: ptr.splits)

text \<open>
  Claim C8. In the request sent to Anthropic, by the single-shot call and by the
  streaming call alike, the message list is the request's messages without those of role
  \<open>system\<close>, in their original order, and the top-level \<open>system\<close> field is the content
  of the last system message (the empty string when there is none): a later system
  message overwrites an earlier one, nothing is concatenated.
\<close>

theorem anthropic_system_extraction:
  "a_Messages (anthropic_wire_request req) = forwarded (Messages req)
   \<and> System (anthropic_wire_request req) = last_system (Messages req)
   \<and> a_Messages (anthropic_stream_wire_request req) = forwarded (Messages req)
   \<and> System (anthropic_stream_wire_request req) = last_system (Messages req)"
proof -
  obtain r sp where c: "convertRequest req = (r, sp)"
    by (cases "convertRequest req")
  have m: "a_Messages r = forwarded (Messages req)"
    using convertRequest_messages [of req] c by simp
  have s: "sp = last_system (Messages req)"
    using convertRequest_system_prompt [of req] c by simp
  have e: "System r = []"
    using convertRequest_system_field [of req] c by simp
  show ?thesis
    using m s e by (simp add: anthropic_wire_request_def anthropic_stream_wire_request_def c Let_def)
qed

section \<open>Properties of the failover orchestrator\<close>

lemma GetProvider_name: "GetProvider m f = Inr (q, qn) \<Longrightarrow> qn = detectProvider f"
  by (auto simp: GetProvider_def Let_def split: if_splits option.splits)

lemma try_fallbacks_model_irrelevant:
  "try_fallbacks m (req\<lparr>Model := x\<rparr>) fs = try_fallbacks m req fs"
  by (induction fs arbitrary: x) (simp_all add: Let_def)

lemma try_fallbacks_unroutable:
  "\<not> routable m f \<Longrightarrow> try_fallbacks m req (f # fs) = try_fallbacks m req fs"
  by (simp add: routable_def Let_def try_fallbacks_model_irrelevant split: sum.splits)

lemma try_fallbacks_failed:
  "routable m f \<Longrightarrow> isl (attempt m req f) \<Longrightarrow>
   try_fallbacks m req (f # fs) =
     (fst (try_fallbacks m req fs), call_of req f # snd (try_fallbacks m req fs))"
  by (auto simp: routable_def attempt_def call_of_def Let_def try_fallbacks_model_irrelevant
        GetProvider_name split: sum.splits prod.splits)

lemma try_fallbacks_succeeded:
  "attempt m req f = Inr resp \<Longrightarrow>
   try_fallbacks m req (f # fs) = (Some (resp, detectProvider f), [call_of req f])"
  by (auto simp: attempt_def call_of_def Let_def GetProvider_name split: sum.splits prod.splits)

lemma try_fallbacks_first_success:
  assumes "\<forall>f\<in>set pre. isl (attempt m req f)" and "attempt m req fb = Inr resp"
  shows "try_fallbacks m req (pre @ fb # post) =
           (Some (resp, detectProvider fb), map (call_of req) (filter (routable m) pre @ [fb]))"
  using assms(1)
proof (induction pre)
  case Nil
  show ?case using try_fallbacks_succeeded [OF assms(2)] by simp
next
  case (Cons f pre)
  then have IH: "try_fallbacks m req (pre @ fb # post) =
           (Some (resp, detectProvider fb), map (call_of req) (filter (routable m) pre @ [fb]))"
    and f: "isl (attempt m req f)" by simp_all
  show ?case
  proof (cases "routable m f")
    case True
    then show ?thesis using try_fallbacks_failed [OF True f] IH by simp
  next
    case False
    then show ?thesis using try_fallbacks_unroutable [OF False] IH by simp
  qed
qed

text \<open>
  The orchestrator's two branches after a failed primary call, in terms of its own test
  on the error's text: when the test fails, the error is returned and the primary call
  is the only one; when it passes and a fallback of the filtered chain succeeds after
  the earlier ones failed, that fallback's response is returned, the calls being made
  in chain order with the fallback model in the request.
\<close>

lemma ChatCompletion_not_retried:
  assumes "GetProvider m (Model req) = Inr (p, pn)"
    and "pChatCompletion p req = Inl err"
    and "\<not> isRetryableError err"
  shows "ChatCompletion m req = ((None, pn, False, Some err), [(pn, req)])"
  using assms by (simp add: ChatCompletion_def Let_def)

lemma ChatCompletion_retried:
  assumes "GetProvider m (Model req) = Inr (p, pn)"
    and "pChatCompletion p req = Inl err"
    and "isRetryableError err"
    and "GetFailoverChain m (Model req) = pre @ fb # post"
    and "\<forall>f\<in>set pre. isl (attempt m req f)"
    and "attempt m req fb = Inr resp"
  shows "ChatCompletion m req =
           ((Some resp, detectProvider fb, True, None),
            (pn, req) # map (call_of req) (filter (routable m) pre @ [fb]))"
  using assms(1-4) try_fallbacks_first_success [OF assms(5,6), of post]
  by (simp add: ChatCompletion_def Let_def)

subsection \<open>Which errors are retried\<close>

text \<open>
  An answer of the Anthropic or Gemini client with status 429 or 500 to 599 passes the
  test, whatever its body: the status is part of the error's text.
\<close>

lemma fmt_d_429: "fmt_d 429 = ''429''"
  by (simp add: fmt_d.simps digit_char_def)

lemma fmt_d_5xx:
  assumes "500 \<le> code" "code \<le> 599"
  shows "\<exists>rest. fmt_d code = CHR ''5'' # rest"
proof -
  have a: "code div 10 div 10 = 5" using assms by simp
  have b: "\<not> code < 10" "\<not> code div 10 < 10" using assms by simp_all
  have "fmt_d code = fmt_d (code div 10 div 10) @ [digit_char (code div 10 mod 10), digit_char (code mod 10)]"
    using b by (simp add: fmt_d.simps [of code] fmt_d.simps [of "code div 10"])
  also have "fmt_d (code div 10 div 10) = ''5''"
    unfolding a by (simp add: fmt_d.simps digit_char_def)
  finally show ?thesis by simp
qed

lemma status_error_retryable:
  assumes "code = 429 \<or> (500 \<le> code \<and> code \<le> 599)"
  shows "isRetryableError (api_error name (StatusError code body))"
proof -
  from assms consider (rl) "code = 429" | (srv) "500 \<le> code" "code \<le> 599" by blast
  then show ?thesis
  proof cases
    case rl
    have "api_error name (StatusError code body) =
            (name @ '' API error (status '') @ ''429'' @ (''): '' @ body)"
      by (simp add: api_error_def rl fmt_d_429)
    then have "Contains (api_error name (StatusError code body)) ''429''"
      unfolding Contains_def by (simp only: sublist_appendI)
    then show ?thesis by (simp add: isRetryableError_def)
  next
    case srv
    then obtain rest where r: "fmt_d code = CHR ''5'' # rest" using fmt_d_5xx by blast
    have "api_error name (StatusError code body) =
            (name @ '' API error ('') @ ''status 5'' @ (rest @ ''): '' @ body)"
      by (simp add: api_error_def r)
    then have "Contains (api_error name (StatusError code body)) ''status 5''"
      unfolding Contains_def by (simp only: sublist_appendI)
    then show ?thesis by (simp add: isRetryableError_def)
  qed
qed

lemmas eval_manager =
  manager_of_def NewManager_def all_keys_def GetProvider_def detectProvider_def HasPrefix_def
  GetFailoverChain_def setupFailoverChains_def Let_def user_request_def

lemmas eval_error =
  isRetryableError_def Contains_def api_error_def fmt_d.simps digit_char_def sublist_Cons_right

text \<open>
  Claim C2 at failing inputs. The orchestrator decides on the text of the error, and the
  text does not determine the class. An Anthropic answer with status 400, of no
  retryable class, is retried, because its body mentions a token count with the digits
  429: the fallback is called and its response returned. A refused connection, of the
  class timeout or connection failure, is not retried: its text has none of \<open>429\<close>,
  \<open>rate limit\<close>, \<open>timeout\<close>, \<open>status 5\<close>, and the error is returned after the
  primary call alone. Nor does the text of the OpenAI client's error for a 503 pass the
  test.
\<close>

theorem retry_decision_ignores_error_class:
  "\<not> class_retryable (classify too_long_400)
   \<and> isRetryableError (api_error ''Anthropic'' too_long_400)
   \<and> ChatCompletion
        (manager_of echo_provider (failing_provider ''Anthropic'' too_long_400) echo_provider)
        (user_request ''claude-sonnet-4-5-20250929'') =
      ((Some (echo_response (user_request ''gpt-4o'')), ''openai'', True, None),
       [(''anthropic'', user_request ''claude-sonnet-4-5-20250929''),
        (''openai'', user_request ''gpt-4o'')])
   \<and> class_retryable (classify connection_refused)
   \<and> \<not> isRetryableError (api_error ''Anthropic'' connection_refused)
   \<and> ChatCompletion
        (manager_of echo_provider (failing_provider ''Anthropic'' connection_refused) echo_provider)
        (user_request ''claude-sonnet-4-5-20250929'') =
      ((None, ''anthropic'', False, Some (api_error ''Anthropic'' connection_refused)),
       [(''anthropic'', user_request ''claude-sonnet-4-5-20250929'')])
   \<and> \<not> isRetryableError (api_error ''OpenAI'' openai_503)"
proof -
  have a: "\<not> class_retryable (classify too_long_400)"
    by (simp add: classify_def too_long_400_def class_retryable_def)
  have b: "isRetryableError (api_error ''Anthropic'' too_long_400)"
    by (simp add: too_long_400_def eval_error)
  have c: "ChatCompletion
        (manager_of echo_provider (failing_provider ''Anthropic'' too_long_400) echo_provider)
        (user_request ''claude-sonnet-4-5-20250929'') =
      ((Some (echo_response (user_request ''gpt-4o'')), ''openai'', True, None),
       [(''anthropic'', user_request ''claude-sonnet-4-5-20250929''),
        (''openai'', user_request ''gpt-4o'')])"
    using b by (simp add: ChatCompletion_def eval_manager failing_provider_def echo_provider_def)
  have d: "class_retryable (classify connection_refused)"
    by (simp add: classify_def connection_refused_def class_retryable_def)
  have e: "\<not> isRetryableError (api_error ''Anthropic'' connection_refused)"
    by (simp add: connection_refused_def eval_error)
  have f: "ChatCompletion
        (manager_of echo_provider (failing_provider ''Anthropic'' connection_refused) echo_provider)
        (user_request ''claude-sonnet-4-5-20250929'') =
      ((None, ''anthropic'', False, Some (api_error ''Anthropic'' connection_refused)),
       [(''anthropic'', user_request ''claude-sonnet-4-5-20250929'')])"
    using e by (simp add: ChatCompletion_def eval_manager failing_provider_def)
  have g: "\<not> isRetryableError (api_error ''OpenAI'' openai_503)"
    by (simp add: openai_503_def eval_error)
  show ?thesis using a b c d e f g by simp
qed




text \<open>
  Claim C5 at a failing input. Anthropic rejects a request for its \<open>max_tokens\<close> of
  42900 with status 400, a permanent error; the body repeats the number, whose digits
  contain 429. The orchestrator does not return the error: it calls the OpenAI
  fallback and returns that response with \<open>failoverUsed = true\<close>.
\<close>

theorem bad_request_gets_fallback:
  "classify max_tokens_400 = OtherError
   \<and> \<not> class_retryable (classify max_tokens_400)
   \<and> ChatCompletion
        (manager_of echo_provider (failing_provider ''Anthropic'' max_tokens_400) echo_provider)
        (request_with_max_tokens 42900) =
      ((Some (echo_response ((request_with_max_tokens 42900)\<lparr>Model := ''gpt-4o-mini''\<rparr>)),
        ''openai'', True, None),
       [(''anthropic'', request_with_max_tokens 42900),
        (''openai'', (request_with_max_tokens 42900)\<lparr>Model := ''gpt-4o-mini''\<rparr>)])"
proof -
  have a: "classify max_tokens_400 = OtherError"
    by (simp add: classify_def max_tokens_400_def)
  have b: "isRetryableError (api_error ''Anthropic'' max_tokens_400)"
    by (simp add: max_tokens_400_def eval_error)
  have c: "ChatCompletion
        (manager_of echo_provider (failing_provider ''Anthropic'' max_tokens_400) echo_provider)
        (request_with_max_tokens 42900) =
      ((Some (echo_response ((request_with_max_tokens 42900)\<lparr>Model := ''gpt-4o-mini''\<rparr>)),
        ''openai'', True, None),
       [(''anthropic'', request_with_max_tokens 42900),
        (''openai'', (request_with_max_tokens 42900)\<lparr>Model := ''gpt-4o-mini''\<rparr>)])"
    using b
    by (simp add: ChatCompletion_def eval_manager failing_provider_def echo_provider_def
          request_with_max_tokens_def)
  show ?thesis using a c by (simp add: class_retryable_def)
qed

section \<open>Properties of the rate limiter\<close>

lemma issue_no_fault:
  "faults r = [] \<Longrightarrow> issue c r = (False, r\<lparr>oplog := oplog r @ [c]\<rparr>)"
  by (simp add: issue_def)

lemma live_oplog [simp]: "live now (r\<lparr>oplog := l\<rparr>) key = live now r key"
  by (simp add: live_def)

lemma check_first:
  assumes "live now r (ratelimit_key i) = None" and "faults r = []"
  shows "fst (CheckRateLimit now i L r) = (False, L - 1, None)
         \<and> kv (snd (CheckRateLimit now i L r)) (ratelimit_key i) = Some (IntVal 1, Some (now + 60))
         \<and> faults (snd (CheckRateLimit now i L r)) = []"
  using assms
  by (simp add: CheckRateLimit_def redis_GetInt_def after_get_def redis_Set_def issue_no_fault Let_def)

lemma live_counted:
  "kv r key = Some (v, Some e) \<Longrightarrow> now < e \<Longrightarrow> live now r key = Some v"
  by (simp add: live_def)

lemma check_below:
  assumes "kv r (ratelimit_key i) = Some (IntVal k, Some e)" and "now < e" and "faults r = []"
    and "1 \<le> k" and "k < L"
  shows "fst (CheckRateLimit now i L r) = (False, L - (k + 1), None)
         \<and> kv (snd (CheckRateLimit now i L r)) (ratelimit_key i) = Some (IntVal (k + 1), Some e)
         \<and> faults (snd (CheckRateLimit now i L r)) = []"
  using assms
  by (simp add: CheckRateLimit_def redis_GetInt_def after_get_def redis_Incr_def issue_no_fault
        Let_def live_def expiry_of_def)

lemma check_at_limit:
  assumes "kv r (ratelimit_key i) = Some (IntVal k, Some e)" and "now < e" and "faults r = []"
    and "L \<le> k"
  shows "fst (CheckRateLimit now i L r) = (True, 0, None)
         \<and> kv (snd (CheckRateLimit now i L r)) (ratelimit_key i) = Some (IntVal k, Some e)
         \<and> faults (snd (CheckRateLimit now i L r)) = []"
  using assms
  by (simp add: CheckRateLimit_def redis_GetInt_def after_get_def issue_no_fault Let_def live_def)

lemma checks_Cons:
  "checks (t # ts) i L r =
     (fst (CheckRateLimit t i L r) # fst (checks ts i L (snd (CheckRateLimit t i L r))),
      snd (checks ts i L (snd (CheckRateLimit t i L r))))"
  by (simp split: prod.splits)

lemma checks_append:
  "checks (ts @ us) i L r =
     (fst (checks ts i L r) @ fst (checks us i L (snd (checks ts i L r))),
      snd (checks us i L (snd (checks ts i L r))))"
  by (induction ts arbitrary: r) (simp_all add: checks_Cons del: checks.simps(2))

lemma checks_below:
  assumes "kv r (ratelimit_key i) = Some (IntVal k, Some e)" and "faults r = []" and "1 \<le> k"
    and "\<forall>t\<in>set ts. t < e" and "k + int (length ts) \<le> L"
  shows "fst (checks ts i L r) = map (\<lambda>j. (False, L - k - 1 - int j, None)) [0..<length ts]
         \<and> kv (snd (checks ts i L r)) (ratelimit_key i) = Some (IntVal (k + int (length ts)), Some e)
         \<and> faults (snd (checks ts i L r)) = []"
  using assms
proof (induction ts arbitrary: r k)
  case Nil
  then show ?case by simp
next
  case (Cons t ts)
  let ?r = "snd (CheckRateLimit t i L r)"
  have step: "fst (CheckRateLimit t i L r) = (False, L - (k + 1), None)
         \<and> kv ?r (ratelimit_key i) = Some (IntVal (k + 1), Some e) \<and> faults ?r = []"
    using Cons.prems by (intro check_below) auto
  have rest: "fst (checks ts i L ?r) = map (\<lambda>j. (False, L - (k + 1) - 1 - int j, None)) [0..<length ts]
         \<and> kv (snd (checks ts i L ?r)) (ratelimit_key i) = Some (IntVal (k + 1 + int (length ts)), Some e)
         \<and> faults (snd (checks ts i L ?r)) = []"
    using Cons.prems step by (intro Cons.IH) auto
  have shift: "map (\<lambda>j. (False, L - k - 1 - int j, None)) [0..<length (t # ts)]
        = (False, L - (k + 1), None) # map (\<lambda>j. (False, L - (k + 1) - 1 - int j, None)) [0..<length ts]"
    by (simp add: map_upt_Suc del: upt_Suc)
  show ?case
    unfolding checks_Cons shift using step rest by (simp add: algebra_simps)
qed

lemma serve_checks:
  assumes "0 < RateLimitPerMinute k"
  shows "serve ts k r =
           (map (respond (RateLimitPerMinute k) Map.empty) (fst (checks ts (ID k) (RateLimitPerMinute k) r)),
            snd (checks ts (ID k) (RateLimitPerMinute k) r))"
  using assms
  by (induction ts arbitrary: r) (simp_all add: RateLimitMiddleware_def Let_def split: prod.splits)

lemma respond_admitted:
  "respond L Map.empty (False, n, None) =
     Next [''X-RateLimit-Limit'' \<mapsto> fmt_int L, ''X-RateLimit-Remaining'' \<mapsto> fmt_int n]"
  by (simp add: respond_def)

lemma respond_exceeded:
  "respond L Map.empty (True, n, None) =
     Rejected 429 [''X-RateLimit-Limit'' \<mapsto> fmt_int L, ''X-RateLimit-Remaining'' \<mapsto> fmt_int n,
                   ''Retry-After'' \<mapsto> ''60''] ''rate limit exceeded''"
  by (simp add: respond_def)

lemma window_checks:
  assumes L: "0 < L" and absent: "live t0 r (ratelimit_key i) = None" and nf: "faults r = []"
    and len: "length ts = nat L" and win: "\<forall>t\<in>set ts. t < t0 + 60"
  shows "fst (checks (t0 # ts) i L r) =
           map (\<lambda>j. (False, L - 1 - int j, None)) [0..<nat L] @ [(True, 0, None)]
         \<and> kv (snd (checks (t0 # ts) i L r)) (ratelimit_key i) = Some (IntVal L, Some (t0 + 60))
         \<and> faults (snd (checks (t0 # ts) i L r)) = []"
proof -
  let ?key = "ratelimit_key i"
  let ?r1 = "snd (CheckRateLimit t0 i L r)"
  obtain us u where ts: "ts = us @ [u]"
    using len L by (cases ts rule: rev_cases) auto
  have lus: "int (length us) = L - 1" using len ts L by auto
  have first: "fst (CheckRateLimit t0 i L r) = (False, L - 1, None)
         \<and> kv ?r1 ?key = Some (IntVal 1, Some (t0 + 60)) \<and> faults ?r1 = []"
    using check_first [OF absent nf] .
  let ?r2 = "snd (checks us i L ?r1)"
  have mid: "fst (checks us i L ?r1) = map (\<lambda>j. (False, L - 1 - 1 - int j, None)) [0..<length us]
         \<and> kv ?r2 ?key = Some (IntVal (1 + int (length us)), Some (t0 + 60)) \<and> faults ?r2 = []"
    using first win ts lus by (intro checks_below) auto
  then have k2: "kv ?r2 ?key = Some (IntVal L, Some (t0 + 60))" and f2: "faults ?r2 = []"
    using lus by simp_all
  have u: "u < t0 + 60" using win ts by simp
  have last: "fst (CheckRateLimit u i L ?r2) = (True, 0, None)
         \<and> kv (snd (CheckRateLimit u i L ?r2)) ?key = Some (IntVal L, Some (t0 + 60))
         \<and> faults (snd (CheckRateLimit u i L ?r2)) = []"
    using check_at_limit [OF k2 u f2] by simp
  have nL: "nat L = Suc (length us)" using lus L by linarith
  have upt: "[0..<nat L] = 0 # map Suc [0..<length us]"
    unfolding nL by (simp add: map_Suc_upt upt_conv_Cons del: upt_Suc)
  have res: "map (\<lambda>j. (False, L - 1 - int j, None)) [0..<nat L]
        = (False, L - 1, None) # map (\<lambda>j. (False, L - 1 - 1 - int j, None)) [0..<length us]"
    unfolding upt by (simp add: comp_def algebra_simps)
  show ?thesis
    unfolding ts checks_Cons checks_append res
    using first mid last by (simp add: checks_Cons)
qed

lemma middleware_positive_limit:
  assumes "0 < RateLimitPerMinute k"
  shows "RateLimitMiddleware now (Some k) h r =
           (respond (RateLimitPerMinute k) h (fst (CheckRateLimit now (ID k) (RateLimitPerMinute k) r)),
            snd (CheckRateLimit now (ID k) (RateLimitPerMinute k) r))"
  using assms by (simp add: RateLimitMiddleware_def Let_def case_prod_beta)

lemmas eval_redis =
  CheckRateLimit_def redis_GetInt_def after_get_def redis_Set_def redis_Incr_def redis_Expire_def
  issue_def live_def expiry_of_def ratelimit_key_def Let_def

text \<open>
  Claim C6. A caller with per-minute limit \<open>L > 0\<close> whose counter is absent issues
  \<open>L + 1\<close> checks, the first at \<open>t0\<close>, all before \<open>t0 + 60\<close>, with the store
  reachable. Checks 1 to \<open>L\<close> return not exceeded, with \<open>L - 1\<close> down to \<open>0\<close>
  remaining; check \<open>L + 1\<close> returns exceeded, and the middleware answers it with
  status 429 and \<open>Retry-After: 60\<close>. From \<open>t0 + 60\<close> on the counter is absent again
  and the next request passes.
\<close>

theorem rate_limit_window:
  assumes "0 < L" and "RateLimitPerMinute apiKey = L"
    and "live t0 r (ratelimit_key (ID apiKey)) = None" and "faults r = []"
    and "length ts = nat L" and "\<forall>t\<in>set ts. t < t0 + 60" and "t0 + 60 \<le> t'"
  shows "fst (checks (t0 # ts) (ID apiKey) L r) =
           map (\<lambda>j. (False, L - 1 - int j, None)) [0..<nat L] @ [(True, 0, None)]
         \<and> fst (serve (t0 # ts) apiKey r) =
           map (\<lambda>j. Next [''X-RateLimit-Limit'' \<mapsto> fmt_int L,
                           ''X-RateLimit-Remaining'' \<mapsto> fmt_int (L - 1 - int j)]) [0..<nat L]
           @ [Rejected 429 [''X-RateLimit-Limit'' \<mapsto> fmt_int L,
                            ''X-RateLimit-Remaining'' \<mapsto> fmt_int 0,
                            ''Retry-After'' \<mapsto> ''60''] ''rate limit exceeded'']
         \<and> live t' (snd (serve (t0 # ts) apiKey r)) (ratelimit_key (ID apiKey)) = None
         \<and> fst (RateLimitMiddleware t' (Some apiKey) Map.empty (snd (serve (t0 # ts) apiKey r))) =
           Next [''X-RateLimit-Limit'' \<mapsto> fmt_int L, ''X-RateLimit-Remaining'' \<mapsto> fmt_int (L - 1)]"
proof -
  let ?i = "ID apiKey"
  let ?end = "snd (checks (t0 # ts) ?i L r)"
  have w: "fst (checks (t0 # ts) ?i L r) =
           map (\<lambda>j. (False, L - 1 - int j, None)) [0..<nat L] @ [(True, 0, None)]
         \<and> kv ?end (ratelimit_key ?i) = Some (IntVal L, Some (t0 + 60)) \<and> faults ?end = []"
    using window_checks [OF assms(1) assms(3) assms(4) assms(5) assms(6)] .
  have pos: "0 < RateLimitPerMinute apiKey" using assms(1,2) by simp
  have sv: "serve (t0 # ts) apiKey r =
              (map (respond L Map.empty) (fst (checks (t0 # ts) ?i L r)), ?end)"
    using serve_checks [OF pos, of "t0 # ts" r] assms(2) by simp
  have gone: "live t' ?end (ratelimit_key ?i) = None"
    using w assms(7) by (simp add: live_def)
  have again: "fst (CheckRateLimit t' ?i L ?end) = (False, L - 1, None)"
    using check_first [OF gone] w by simp
  have mw: "fst (RateLimitMiddleware t' (Some apiKey) Map.empty ?end) =
              Next [''X-RateLimit-Limit'' \<mapsto> fmt_int L, ''X-RateLimit-Remaining'' \<mapsto> fmt_int (L - 1)]"
    using again assms(2) middleware_positive_limit [OF pos, of t' Map.empty ?end]
    by (simp add: respond_admitted del: fmt_int.simps)
  have out: "map (respond L Map.empty) (fst (checks (t0 # ts) ?i L r)) =
           map (\<lambda>j. Next [''X-RateLimit-Limit'' \<mapsto> fmt_int L,
                           ''X-RateLimit-Remaining'' \<mapsto> fmt_int (L - 1 - int j)]) [0..<nat L]
           @ [Rejected 429 [''X-RateLimit-Limit'' \<mapsto> fmt_int L,
                            ''X-RateLimit-Remaining'' \<mapsto> fmt_int 0,
                            ''Retry-After'' \<mapsto> ''60''] ''rate limit exceeded'']"
    using w by (simp add: respond_admitted respond_exceeded comp_def del: fmt_int.simps)
  show ?thesis
    using w sv gone mw out by (simp del: fmt_int.simps)
qed

text \<open>The theorem for limit 2 and requests at seconds 100, 110, 159, then 160.\<close>

theorem rate_limit_window_witness:
  "fst (checks [100, 110, 159] ''key-1'' 2 empty_store) =
     [(False, 1, None), (False, 0, None), (True, 0, None)]
   \<and> fst (serve [100, 110, 159] (caller 2) empty_store) =
     [Next [''X-RateLimit-Limit'' \<mapsto> ''2'', ''X-RateLimit-Remaining'' \<mapsto> ''1''],
      Next [''X-RateLimit-Limit'' \<mapsto> ''2'', ''X-RateLimit-Remaining'' \<mapsto> ''0''],
      Rejected 429 [''X-RateLimit-Limit'' \<mapsto> ''2'', ''X-RateLimit-Remaining'' \<mapsto> ''0'',
                    ''Retry-After'' \<mapsto> ''60''] ''rate limit exceeded'']
   \<and> fst (RateLimitMiddleware 160 (Some (caller 2)) Map.empty
            (snd (serve [100, 110, 159] (caller 2) empty_store))) =
     Next [''X-RateLimit-Limit'' \<mapsto> ''2'', ''X-RateLimit-Remaining'' \<mapsto> ''1'']"
proof -
  have h1: "(0::int) < 2" by simp
  have h2: "RateLimitPerMinute (caller 2) = 2" by (simp add: caller_def)
  have h3: "live 100 empty_store (ratelimit_key (ID (caller 2))) = None"
    by (simp add: live_def empty_store_def)
  have h4: "faults empty_store = []" by (simp add: empty_store_def)
  have h5: "length [110, 159::nat] = nat 2" by simp
  have h6: "\<forall>t\<in>set [110, 159::nat]. t < 100 + 60" by simp
  have h7: "(100::nat) + 60 \<le> 160" by simp
  have up: "[0..<nat 2] = [0, 1]" by (simp add: upt_rec)
  have id: "ID (caller 2) = ''key-1''" by (simp add: caller_def)
  show ?thesis
    using rate_limit_window [OF h1 h2 h3 h4 h5 h6 h7]
    unfolding up id by (simp add: fmt_d.simps digit_char_def)
qed

text \<open>
  Claim C9. When \<open>CheckRateLimit\<close> returns an error, the middleware hands the request
  to the next handler with the response headers untouched: no 429 and no
  \<open>X-RateLimit\<close> header.
\<close>

theorem fail_open_on_store_error:
  assumes "CheckRateLimit now (ID apiKey)
             (if RateLimitPerMinute apiKey \<le> 0 then 100 else RateLimitPerMinute apiKey) r
           = ((exceeded, remaining, Some err), r')"
  shows "RateLimitMiddleware now (Some apiKey) h r = (Next h, r')"
  using assms by (simp add: RateLimitMiddleware_def Let_def respond_def)

text \<open>The theorem at a store whose first command fails.\<close>

theorem fail_open_on_store_error_witness:
  "RateLimitMiddleware 100 (Some (caller 60)) Map.empty unreachable_store =
     (Next Map.empty,
      \<lparr>kv = Map.empty, faults = [], oplog = [GET ''ratelimit:key-1'']\<rparr>)"
proof -
  have h: "CheckRateLimit 100 (ID (caller 60))
             (if RateLimitPerMinute (caller 60) \<le> 0 then 100 else RateLimitPerMinute (caller 60))
             unreachable_store
           = ((False, 0, Some connection_error),
              \<lparr>kv = Map.empty, faults = [], oplog = [GET ''ratelimit:key-1'']\<rparr>)"
    by (simp add: eval_redis caller_def unreachable_store_def)
  show ?thesis using fail_open_on_store_error [OF h] .
qed

text \<open>
  Claim C7 at a failing input. Limit 1, counter absent, two checks of the same caller
  whose \<open>GET\<close>s are both answered before either writes: each sees no counter, each
  sets it to 1, and both are admitted, twice the limit. The same two checks one after
  the other admit one. The check is a read followed by a conditional write, not one
  atomic command.
\<close>

theorem concurrent_checks_exceed_limit:
  "(case interleaved_checks 100 ''key-1'' 1 empty_store of
      (resA, resB, r) \<Rightarrow>
        resA = (False, 0, None) \<and> resB = (False, 0, None) \<and> admitted resA \<and> admitted resB
        \<and> oplog r = [GET ''ratelimit:key-1'', GET ''ratelimit:key-1'',
                      SET ''ratelimit:key-1'', SET ''ratelimit:key-1''])
   \<and> fst (checks [100, 100] ''key-1'' 1 empty_store) = [(False, 0, None), (True, 0, None)]"
  by (simp add: interleaved_checks_def eval_redis empty_store_def admitted_def)

section \<open>Properties of the request handler\<close>

lemma logRequest_redis [simp]:
  "redis (logRequest apiKey req resp provider d cacheHit failoverUsed err w) = redis w"
  by (simp add: logRequest_def Let_def)

lemma handleStreamingChat_redis:
  "redis (snd (handleStreamingChat h el cf apiKey req w)) = redis w"
  by (simp add: handleStreamingChat_def Let_def split: sum.splits prod.splits option.splits)

lemma zero_usage_cost:
  "fst (calculateCost h provider model \<lparr>PromptTokens = 0, CompletionTokens = 0, TotalTokens = t\<rparr>) = 0"
  by (simp add: calculateCost_def Let_def split: sum.splits)

lemma handleStreamingChat_logs:
  "gateway_logs (snd (handleStreamingChat h el cf apiKey req w)) = gateway_logs w
   \<or> (\<exists>lg. gateway_logs (snd (handleStreamingChat h el cf apiKey req w)) = gateway_logs w @ [lg]
          \<and> log_PromptTokens lg = 0 \<and> log_CompletionTokens lg = 0 \<and> log_CostUSD lg = 0)"
  by (simp add: handleStreamingChat_def logRequest_def Let_def zero_usage_cost zero_response_def
        split: sum.splits prod.splits option.splits)

lemmas eval_handler =
  HandleChatCompletion_def handleStreamingChat_def echo_handler_def ChatCompletion_def
  echo_provider_def echo_stream_def echo_response_def recv_step_def calculateCost_def logRequest_def
  zero_response_def fresh_world_def caller_def sse_headers_def fmt_bool_def

lemmas eval_cache =
  Cache_Get_def Cache_Set_def Client_Get_def redis_GetString_def redis_Set_def issue_def live_def
  generateCacheKey_def keyData_def fmt_v_messages_def fmt_v_message_def fmt_v_ptr_def
  plain_codec_def empty_store_def

text \<open>
  Claim C3. For a request with \<open>stream = true\<close> the handler leaves the shared store as
  it found it, the record of issued commands included: it neither reads nor writes the
  cache, whatever the caller's \<open>CacheEnabled\<close> flag.
\<close>

theorem streaming_never_touches_cache:
  assumes "Stream req"
  shows "redis (snd (HandleChatCompletion h now el cf ctx_api_key (Some req) w)) = redis w"
  using assms
  by (cases ctx_api_key) (simp_all add: HandleChatCompletion_def handleStreamingChat_redis)

text \<open>
  The theorem for a caller with caching enabled; the same request without streaming
  issues one \<open>GET\<close> and one \<open>SET\<close> on its cache key.
\<close>

theorem streaming_never_touches_cache_witness:
  "redis (snd (HandleChatCompletion echo_handler 100 250 True (Some (caller 60))
                 (Some ((user_request ''gpt-4o-mini'')\<lparr>Stream := True\<rparr>)) fresh_world)) = empty_store
   \<and> oplog (redis (snd (HandleChatCompletion echo_handler 100 250 True (Some (caller 60))
                 (Some (user_request ''gpt-4o-mini'')) fresh_world))) =
       [GET ''cache:exact:gpt-4o-mini:[{user 2+2? [] <nil> [] }]:<nil>:<nil>:<nil>'',
        SET ''cache:exact:gpt-4o-mini:[{user 2+2? [] <nil> [] }]:<nil>:<nil>:<nil>'']"
proof -
  have h: "Stream ((user_request ''gpt-4o-mini'')\<lparr>Stream := True\<rparr>)" by simp
  have a: "redis (snd (HandleChatCompletion echo_handler 100 250 True (Some (caller 60))
                 (Some ((user_request ''gpt-4o-mini'')\<lparr>Stream := True\<rparr>)) fresh_world)) = empty_store"
    using streaming_never_touches_cache [OF h, of echo_handler 100 250 True "Some (caller 60)" fresh_world]
    by (simp add: fresh_world_def)
  have b: "oplog (redis (snd (HandleChatCompletion echo_handler 100 250 True (Some (caller 60))
                 (Some (user_request ''gpt-4o-mini'')) fresh_world))) =
       [GET ''cache:exact:gpt-4o-mini:[{user 2+2? [] <nil> [] }]:<nil>:<nil>:<nil>'',
        SET ''cache:exact:gpt-4o-mini:[{user 2+2? [] <nil> [] }]:<nil>:<nil>:<nil>'']"
    by (simp add: eval_handler eval_manager eval_cache)
  show ?thesis using a b by simp
qed

text \<open>
  Claim C10. A streaming request writes at most one log record, and that record has
  zero prompt tokens, zero completion tokens and cost 0; the usage handed to
  \<open>calculateCost\<close> carries the total only, so the cost computed from it is 0 whenever
  the pricing lookup succeeds.
\<close>

theorem streaming_cost_is_zero:
  assumes "Stream req"
  shows "(gateway_logs (snd (HandleChatCompletion h now el cf (Some apiKey) (Some req) w))
            = gateway_logs w
          \<or> (\<exists>lg. gateway_logs (snd (HandleChatCompletion h now el cf (Some apiKey) (Some req) w))
                     = gateway_logs w @ [lg]
                 \<and> log_PromptTokens lg = 0 \<and> log_CompletionTokens lg = 0 \<and> log_CostUSD lg = 0))
         \<and> (\<forall>provider model t pricing.
               GetModelPricing h provider model = Inr pricing \<longrightarrow>
               calculateCost h provider model
                 \<lparr>PromptTokens = 0, CompletionTokens = 0, TotalTokens = t\<rparr> = (0, None))"
proof -
  have a: "HandleChatCompletion h now el cf (Some apiKey) (Some req) w
             = handleStreamingChat h el cf apiKey req w"
    using assms by (simp add: HandleChatCompletion_def)
  show ?thesis
    unfolding a using handleStreamingChat_logs [of h el cf apiKey req w]
    by (simp add: calculateCost_def Let_def)
qed

text \<open>
  The theorem at a stream whose last chunk reports 12 + 3 tokens, with nonzero prices:
  the log records 15 total tokens and cost 0, where the same usage in full would cost
  0.000081.
\<close>

theorem streaming_cost_is_zero_witness:
  "gateway_logs (snd (HandleChatCompletion echo_handler 100 250 True (Some (caller 60))
                 (Some ((user_request ''gpt-4o-mini'')\<lparr>Stream := True\<rparr>)) fresh_world)) =
     [\<lparr>log_APIKeyID = ''key-1'', log_Model = ''gpt-4o-mini'', log_Provider = ''openai'',
       log_CostUSD = 0, log_LatencyMs = 250, log_PromptTokens = 0, log_CompletionTokens = 0,
       log_TotalTokens = 15, log_CacheHit = False, log_FailoverUsed = False, log_StatusCode = 200,
       log_ErrorMessage = None\<rparr>]
   \<and> calculateCost echo_handler ''openai'' ''gpt-4o-mini''
        \<lparr>PromptTokens = 0, CompletionTokens = 0, TotalTokens = 15\<rparr> = (0, None)
   \<and> calculateCost echo_handler ''openai'' ''gpt-4o-mini''
        \<lparr>PromptTokens = 12, CompletionTokens = 3, TotalTokens = 15\<rparr> = (81 / 1000000, None)"
proof -
  have h: "Stream ((user_request ''gpt-4o-mini'')\<lparr>Stream := True\<rparr>)" by simp
  have p: "GetModelPricing echo_handler ''openai'' ''gpt-4o-mini'' =
             Inr \<lparr>InputPer1kTokens = 3 / 1000, OutputPer1kTokens = 15 / 1000\<rparr>"
    by (simp add: echo_handler_def)
  have a: "calculateCost echo_handler ''openai'' ''gpt-4o-mini''
        \<lparr>PromptTokens = 0, CompletionTokens = 0, TotalTokens = 15\<rparr> = (0, None)"
    using streaming_cost_is_zero [OF h, of echo_handler 100 250 True "caller 60" fresh_world] p
    by blast
  have b: "gateway_logs (snd (HandleChatCompletion echo_handler 100 250 True (Some (caller 60))
                 (Some ((user_request ''gpt-4o-mini'')\<lparr>Stream := True\<rparr>)) fresh_world)) =
     [\<lparr>log_APIKeyID = ''key-1'', log_Model = ''gpt-4o-mini'', log_Provider = ''openai'',
       log_CostUSD = 0, log_LatencyMs = 250, log_PromptTokens = 0, log_CompletionTokens = 0,
       log_TotalTokens = 15, log_CacheHit = False, log_FailoverUsed = False, log_StatusCode = 200,
       log_ErrorMessage = None\<rparr>]"
    by (simp add: eval_handler eval_manager)
  have c: "calculateCost echo_handler ''openai'' ''gpt-4o-mini''
        \<lparr>PromptTokens = 12, CompletionTokens = 3, TotalTokens = 15\<rparr> = (81 / 1000000, None)"
    by (simp add: calculateCost_def echo_handler_def)
  show ?thesis using a b c by simp
qed

section \<open>The cache key and pointer identity\<close>

text \<open>
  Claim C1 at a failing input. Two requests equal in model, messages, temperature
  (0.7), \<open>max_tokens\<close> and \<open>top_p\<close>, whose temperature is held in different cells:
  the strings that \<open>generateCacheKey\<close> hashes differ, since \<open>%v\<close> prints the cell's
  address, so the keys are equal only if SHA-256 collides on these two strings.
\<close>

theorem cache_key_depends_on_pointer_address:
  "cache_fields (request_with_temperature_at 0xc000012340)
     = cache_fields (request_with_temperature_at 0xc000012348)
   \<and> keyData (request_with_temperature_at 0xc000012340)
       = ''gpt-4o-mini:[{user 2+2? [] <nil> [] }]:0xc000012340:<nil>:<nil>''
   \<and> keyData (request_with_temperature_at 0xc000012348)
       = ''gpt-4o-mini:[{user 2+2? [] <nil> [] }]:0xc000012348:<nil>:<nil>''
   \<and> keyData (request_with_temperature_at 0xc000012340)
       \<noteq> keyData (request_with_temperature_at 0xc000012348)
   \<and> (\<forall>H. generateCacheKey H (request_with_temperature_at 0xc000012340)
              = generateCacheKey H (request_with_temperature_at 0xc000012348)
            \<longleftrightarrow> H ''gpt-4o-mini:[{user 2+2? [] <nil> [] }]:0xc000012340:<nil>:<nil>''
              = H ''gpt-4o-mini:[{user 2+2? [] <nil> [] }]:0xc000012348:<nil>:<nil>'')"
proof -
  have f: "cache_fields (request_with_temperature_at 0xc000012340)
     = cache_fields (request_with_temperature_at 0xc000012348)"
    by (simp add: cache_fields_def request_with_temperature_at_def user_request_def)
  have a: "keyData (request_with_temperature_at 0xc000012340)
       = ''gpt-4o-mini:[{user 2+2? [] <nil> [] }]:0xc000012340:<nil>:<nil>''"
    by (simp add: keyData_def request_with_temperature_at_def user_request_def fmt_v_messages_def
          fmt_v_message_def fmt_v_ptr_def fmt_x.simps hex_char_def)
  have b: "keyData (request_with_temperature_at 0xc000012348)
       = ''gpt-4o-mini:[{user 2+2? [] <nil> [] }]:0xc000012348:<nil>:<nil>''"
    by (simp add: keyData_def request_with_temperature_at_def user_request_def fmt_v_messages_def
          fmt_v_message_def fmt_v_ptr_def fmt_x.simps hex_char_def)
  show ?thesis
    unfolding generateCacheKey_def a b using f by simp
qed

end
